theory Spec2Isabelle
  imports
    Complex_Main
    "HOL-Library.Char_ord"
    "HOL-Library.List_Lexorder"
    "HOL-Library.Product_Lexorder"
begin

section \<open>DOS data entities (ase/spectrum/dosdata.py)\<close>

text \<open>
  Python floats are modelled by \<^typ>\<open>real\<close>: the statements below are about which
  values are stored, combined and compared, and none of them depends on rounding.
  Exceptions are values of \<open>error\<close>; a function that can raise returns \<open>error + 'a\<close>
  with \<open>Inl\<close> for the exception.
\<close>

datatype error = TypeError | ValueError | IndexError | AttributeError

text \<open>\<open>Info = Dict[str, str]\<close>: a mapping from string keys to string values.\<close>

type_synonym Info = "string \<rightharpoonup> string"

text \<open>
  The two concrete entity classes. Both derive from \<open>GeneralDOSData\<close>; neither is a
  subclass of the other, so \<open>isinstance(x, RawDOSData)\<close> holds exactly for the first.
\<close>

datatype kind = RawDOSData | GridDOSData

text \<open>
  An entity object. The attribute \<open>_data\<close>, an array of two rows, is represented by
  its rows \<open>energies\<close> (row 0) and \<open>weights\<close> (row 1). The type of \<open>info\<close> is a
  parameter: it is \<open>Info\<close> where the mapping is used as a value, and a reference into a
  store of mappings where sharing of the mapping object matters.
\<close>

record 'i dosdata =
  kind :: kind
  energies :: "real list"
  weights :: "real list"
  info :: 'i

subsection \<open>numpy helpers\<close>

text \<open>\<open>numpy.isclose(a, b)\<close> with the default \<open>rtol = 1e-05\<close> and \<open>atol = 1e-08\<close>.\<close>

definition isclose :: "real \<Rightarrow> real \<Rightarrow> bool" where
  "isclose a b = (\<bar>a - b\<bar> \<le> 1 / 10 ^ 8 + (1 / 10 ^ 5) * \<bar>b\<bar>)"

text \<open>
  \<open>numpy.allclose(a, b)\<close> on one-dimensional arrays: elementwise on equal lengths, an
  array of length one is broadcast against the other, and any other pair of lengths
  raises \<open>ValueError\<close> (operands could not be broadcast together).
\<close>

definition allclose :: "real list \<Rightarrow> real list \<Rightarrow> error + bool" where
  "allclose a b =
     (if length a = length b then Inr (list_all2 isclose a b)
      else if length a = 1 then Inr (list_all (isclose (hd a)) b)
      else if length b = 1 then Inr (list_all (\<lambda>x. isclose x (hd b)) a)
      else Inl ValueError)"

text \<open>
  \<open>numpy.linspace(start, stop, num)\<close>: \<open>num\<close> evenly spaced points from \<open>start\<close> to
  \<open>stop\<close>, both included; a single point is \<open>start\<close>; a negative \<open>num\<close> raises
  \<open>ValueError\<close>.
\<close>

definition linspace :: "real \<Rightarrow> real \<Rightarrow> int \<Rightarrow> error + real list" where
  "linspace start stop num =
     (if num < 0 then Inl ValueError
      else Inr (map (\<lambda>i. if num = 1 then start
                          else start + real i * ((stop - start) / real_of_int (num - 1)))
                    [0..<nat num]))"

text \<open>\<open>str.lower()\<close> on the ASCII letters.\<close>

definition lower_char :: "char \<Rightarrow> char" where
  "lower_char c =
     (if CHR ''A'' \<le> c \<and> c \<le> CHR ''Z'' then char_of (of_char c + (32::nat)) else c)"

definition str_lower :: "string \<Rightarrow> string" where
  "str_lower s = map lower_char s"

subsection \<open>DOSData and GeneralDOSData\<close>

text \<open>
  \<open>GeneralDOSData.__init__\<close>: the lengths are compared, then both sequences are written
  into a new array. The class of the new object is the first argument.
\<close>

definition GeneralDOSData_init ::
  "kind \<Rightarrow> real list \<Rightarrow> real list \<Rightarrow> 'i \<Rightarrow> error + 'i dosdata" where
  "GeneralDOSData_init k es ws i =
     (if length ws \<noteq> length es then Inl ValueError
      else Inr \<lparr>kind = k, energies = es, weights = ws, info = i\<rparr>)"

definition get_energies :: "'i dosdata \<Rightarrow> real list" where
  "get_energies d = energies d"

definition get_weights :: "'i dosdata \<Rightarrow> real list" where
  "get_weights d = weights d"

text \<open>
  \<open>GridDOSData.__init__\<close>: \<open>energies[0]\<close> and \<open>energies[-1]\<close> raise \<open>IndexError\<close> on an
  empty sequence; the energies must be close to the evenly spaced grid between their
  first and last value; then the length test, repeated by the base class.
\<close>

definition GridDOSData_init :: "real list \<Rightarrow> real list \<Rightarrow> 'i \<Rightarrow> error + 'i dosdata" where
  "GridDOSData_init es ws i =
     (if es = [] then Inl IndexError
      else case linspace (hd es) (last es) (int (length es)) of
             Inl e \<Rightarrow> Inl e
           | Inr grid \<Rightarrow>
               (case allclose es grid of
                  Inl e \<Rightarrow> Inl e
                | Inr ok \<Rightarrow>
                    if \<not> ok then Inl ValueError
                    else if length ws \<noteq> length es then Inl ValueError
                    else GeneralDOSData_init GridDOSData es ws i))"

text \<open>The constructor of the class \<open>k\<close>: \<open>type(self)(energies, weights, info=...)\<close>.\<close>

definition dosdata_init :: "kind \<Rightarrow> real list \<Rightarrow> real list \<Rightarrow> 'i \<Rightarrow> error + 'i dosdata" where
  "dosdata_init k es ws i =
     (case k of
        RawDOSData \<Rightarrow> GeneralDOSData_init RawDOSData es ws i
      | GridDOSData \<Rightarrow> GridDOSData_init es ws i)"

text \<open>
  \<open>GeneralDOSData.copy\<close>. On a mapping held as a value, \<open>self.info.copy()\<close> is the
  mapping itself.
\<close>

definition copy :: "Info dosdata \<Rightarrow> error + Info dosdata" where
  "copy d = dosdata_init (kind d) (get_energies d) (get_weights d) (info d)"

subsection \<open>Combination\<close>

text \<open>
  \<open>dict(set(self.info.items()) & set(other.info.items()))\<close>: the pairs that occur in
  both mappings.
\<close>

definition info_intersection :: "Info \<Rightarrow> Info \<Rightarrow> Info" where
  "info_intersection a b =
     (\<lambda>k. case a k of None \<Rightarrow> None
              | Some v \<Rightarrow> if b k = Some v then Some v else None)"

text \<open>The right operand of \<open>+\<close>: an entity, or any other object (\<open>None\<close>, a number, ...).\<close>

datatype operand = DOS "Info dosdata" | NotDOS

text \<open>
  \<open>RawDOSData.__add__\<close>. The new object is built from empty sequences and its \<open>_data\<close>
  is then replaced by the concatenation of both arrays along the columns.
\<close>

definition RawDOSData_add :: "Info dosdata \<Rightarrow> operand \<Rightarrow> error + Info dosdata" where
  "RawDOSData_add self other =
     (case other of
        NotDOS \<Rightarrow> Inl TypeError
      | DOS b \<Rightarrow>
          if kind b \<noteq> RawDOSData then Inl TypeError
          else (case GeneralDOSData_init RawDOSData [] [] (info_intersection (info self) (info b)) of
                  Inl e \<Rightarrow> Inl e
                | Inr new_object \<Rightarrow>
                    Inr (new_object\<lparr>energies := energies self @ energies b,
                                     weights := weights self @ weights b\<rparr>)))"

text \<open>
  \<open>a + b\<close> on one-dimensional numpy arrays: elementwise on equal lengths, with an array
  of length one broadcast against the other; other lengths raise \<open>ValueError\<close>.
\<close>

definition np_add :: "real list \<Rightarrow> real list \<Rightarrow> error + real list" where
  "np_add a b =
     (if length a = length b then Inr (map2 (+) a b)
      else if length a = 1 then Inr (map (\<lambda>y. hd a + y) b)
      else if length b = 1 then Inr (map (\<lambda>x. x + hd b) a)
      else Inl ValueError)"

text \<open>
  \<open>GridDOSData.__add__\<close>: the grids must have the same length and be close; the weights
  are added elementwise and a new grid object is constructed on the left operand's axis.
\<close>

definition GridDOSData_add :: "Info dosdata \<Rightarrow> operand \<Rightarrow> error + Info dosdata" where
  "GridDOSData_add self other =
     (case other of
        NotDOS \<Rightarrow> Inl TypeError
      | DOS b \<Rightarrow>
          if kind b \<noteq> GridDOSData then Inl TypeError
          else if length (energies self) \<noteq> length (get_energies b) then Inl ValueError
          else (case allclose (energies self) (get_energies b) of
                  Inl e \<Rightarrow> Inl e
                | Inr ok \<Rightarrow>
                    if \<not> ok then Inl ValueError
                    else (case np_add (weights self) (get_weights b) of
                            Inl e \<Rightarrow> Inl e
                          | Inr new_weights \<Rightarrow>
                              GridDOSData_init (energies self) new_weights
                                (info_intersection (info self) (info b)))))"

text \<open>\<open>x + y\<close> on an entity \<open>x\<close> calls the \<open>__add__\<close> of its class.\<close>

definition dos_add :: "Info dosdata \<Rightarrow> operand \<Rightarrow> error + Info dosdata" where
  "dos_add x y =
     (case kind x of
        RawDOSData \<Rightarrow> RawDOSData_add x y
      | GridDOSData \<Rightarrow> GridDOSData_add x y)"

subsection \<open>Broadening and sampling\<close>

text \<open>\<open>DOSData._delta\<close>: the Gaussian kernel centred at \<open>x0\<close>, evaluated on the array \<open>x\<close>.\<close>

definition DOSData_delta :: "real list \<Rightarrow> real \<Rightarrow> real \<Rightarrow> string \<Rightarrow> error + real list" where
  "DOSData_delta x x0 width smearing =
     (if str_lower smearing = ''gauss''
      then Inr (map (\<lambda>xi. exp (- 0.5 * ((xi - x0) / width) ^ 2) / (sqrt (2 * pi) * width)) x)
      else Inl ValueError)"

text \<open>
  The loop of \<open>DOSData._sample\<close> over \<open>enumerate(self.get_energies())\<close>: \<open>i\<close> is the
  position of \<open>raw_energy\<close>, and \<open>weights[i]\<close> raises \<open>IndexError\<close> beyond the end.
\<close>

fun sample_loop ::
  "real list \<Rightarrow> real \<Rightarrow> string \<Rightarrow> real list \<Rightarrow> nat \<Rightarrow> real list \<Rightarrow> real list
     \<Rightarrow> error + real list" where
  "sample_loop energies' width smearing weights' i [] weights_grid = Inr weights_grid"
| "sample_loop energies' width smearing weights' i (raw_energy # rest) weights_grid =
     (case DOSData_delta energies' raw_energy width smearing of
        Inl e \<Rightarrow> Inl e
      | Inr delta \<Rightarrow>
          if i < length weights'
          then sample_loop energies' width smearing weights' (Suc i) rest
                 (map2 (+) weights_grid (map (\<lambda>y. weights' ! i * y) delta))
          else Inl IndexError)"

text \<open>\<open>DOSData._sample\<close>, the base-class sampling; \<open>_check_positive_width\<close> comes first.\<close>

definition DOSData_sample ::
  "'i dosdata \<Rightarrow> real list \<Rightarrow> real \<Rightarrow> string \<Rightarrow> error + real list" where
  "DOSData_sample self energies' width smearing =
     (if width \<le> 0 then Inl ValueError
      else sample_loop energies' width smearing (get_weights self) 0 (get_energies self)
             (replicate (length energies') 0))"

text \<open>
  A call of \<open>warnings.warn\<close> is recorded in a list of warnings that is returned with
  the result.
\<close>

datatype warning = SmallWidthWarning

text \<open>
  \<open>GridDOSData._check_spacing\<close>: reads the first two energies (\<open>IndexError\<close> when
  there are fewer than two), warns when the width is below twice their difference, and
  returns the difference.
\<close>

definition GridDOSData_check_spacing :: "'i dosdata \<Rightarrow> real \<Rightarrow> warning list \<times> (error + real)" where
  "GridDOSData_check_spacing self width =
     (if length (energies self) < 2 then ([], Inl IndexError)
      else let current_spacing = energies self ! 1 - energies self ! 0
           in (if width < 2 * current_spacing then [SmallWidthWarning] else [],
               Inr current_spacing))"

text \<open>\<open>GridDOSData._sample\<close>: the base-class result times the spacing.\<close>

definition GridDOSData_sample ::
  "'i dosdata \<Rightarrow> real list \<Rightarrow> real \<Rightarrow> string \<Rightarrow> warning list \<times> (error + real list)" where
  "GridDOSData_sample self energies' width smearing =
     (case GridDOSData_check_spacing self width of
        (ws, Inl e) \<Rightarrow> (ws, Inl e)
      | (ws, Inr current_spacing) \<Rightarrow>
          (ws, case DOSData_sample self energies' width smearing of
                 Inl e \<Rightarrow> Inl e
               | Inr weights_grid \<Rightarrow> Inr (map (\<lambda>y. y * current_spacing) weights_grid)))"

text \<open>\<open>self._sample(...)\<close> on an entity: the method of its class.\<close>

definition dos_sample ::
  "'i dosdata \<Rightarrow> real list \<Rightarrow> real \<Rightarrow> string \<Rightarrow> warning list \<times> (error + real list)" where
  "dos_sample self energies' width smearing =
     (case kind self of
        RawDOSData \<Rightarrow> ([], DOSData_sample self energies' width smearing)
      | GridDOSData \<Rightarrow> GridDOSData_sample self energies' width smearing)"

text \<open>Python's \<open>min\<close> and \<open>max\<close> of a sequence raise \<open>ValueError\<close> when it is empty.\<close>

definition py_min :: "real list \<Rightarrow> error + real" where
  "py_min xs = (case xs of [] \<Rightarrow> Inl ValueError | x # rest \<Rightarrow> Inr (fold min rest x))"

definition py_max :: "real list \<Rightarrow> error + real" where
  "py_max xs = (case xs of [] \<Rightarrow> Inl ValueError | x # rest \<Rightarrow> Inr (fold max rest x))"

text \<open>
  \<open>DOSData.sample_grid\<close>. An absent \<open>xmin\<close> or \<open>xmax\<close> is \<open>None\<close>; the defaults of
  the other parameters are chosen by the caller.
\<close>

definition sample_grid_bound ::
  "real option \<Rightarrow> error + real \<Rightarrow> real \<Rightarrow> error + real" where
  "sample_grid_bound given extreme pad =
     (case given of
        Some x \<Rightarrow> Inr x
      | None \<Rightarrow> (case extreme of Inl e \<Rightarrow> Inl e | Inr m \<Rightarrow> Inr (m + pad)))"

definition sample_grid ::
  "Info dosdata \<Rightarrow> int \<Rightarrow> real option \<Rightarrow> real option \<Rightarrow> real \<Rightarrow> real \<Rightarrow> string
     \<Rightarrow> warning list \<times> (error + Info dosdata)" where
  "sample_grid self npts xmin xmax padding width smearing =
     (case sample_grid_bound xmin (py_min (get_energies self)) (- (padding * width)) of
        Inl e \<Rightarrow> ([], Inl e)
      | Inr lo \<Rightarrow>
          (case sample_grid_bound xmax (py_max (get_energies self)) (padding * width) of
             Inl e \<Rightarrow> ([], Inl e)
           | Inr hi \<Rightarrow>
               (case linspace lo hi npts of
                  Inl e \<Rightarrow> ([], Inl e)
                | Inr energies_grid \<Rightarrow>
                    (case dos_sample self energies_grid width smearing of
                       (ws, Inl e) \<Rightarrow> (ws, Inl e)
                     | (ws, Inr weights_grid) \<Rightarrow>
                         (ws, GridDOSData_init energies_grid weights_grid (info self))))))"


subsection \<open>The invariant of the stored data\<close>

text \<open>\<open>len(energies) == len(weights)\<close> on the rows stored in an entity.\<close>

definition lengths_agree :: "'i dosdata \<Rightarrow> bool" where
  "lengths_agree d = (length (energies d) = length (weights d))"

text \<open>An entity that is a GridDOSData as its constructor returns it.\<close>

definition valid_grid :: "'i dosdata \<Rightarrow> bool" where
  "valid_grid d = (GridDOSData_init (energies d) (weights d) (info d) = Inr d)"

section \<open>Collections (ase/dft/doscollection.py)\<close>

text \<open>
  doscollection.py imports the names \<open>DOSData\<close>, \<open>RawDOSData\<close> and \<open>GridDOSData\<close> from
  the module \<open>ase.dft.dosdata\<close>, which is not among the sources. The entities of the
  collections are the classes of these names in ase/spectrum/dosdata.py, as above.
\<close>

text \<open>
  The three collection classes. \<open>DOSCollection\<close> and \<open>RawDOSCollection\<close> keep the list
  \<open>_data\<close> of their entities. \<open>GridDOSCollection\<close> keeps the common axis \<open>_energies\<close>,
  the matrix \<open>_weights\<close> with one row per entity, and the list \<open>_info\<close> with the info
  object of each row.
\<close>

datatype 'i collection =
    DOSCollection "'i dosdata list"
  | RawDOSCollection "'i dosdata list"
  | GridDOSCollection "real list" "real list list" "'i list"

datatype variant = DOSCollection_class | RawDOSCollection_class | GridDOSCollection_class

text \<open>\<open>type(self)\<close>.\<close>

fun type_of :: "'i collection \<Rightarrow> variant" where
  "type_of (DOSCollection _) = DOSCollection_class"
| "type_of (RawDOSCollection _) = RawDOSCollection_class"
| "type_of (GridDOSCollection _ _ _) = GridDOSCollection_class"

text \<open>
  \<open>isinstance(other, cls)\<close> for a collection \<open>other\<close>: both restricted classes are
  subclasses of \<open>DOSCollection\<close>, and neither is a subclass of the other.
\<close>

definition isinstance :: "'i collection \<Rightarrow> variant \<Rightarrow> bool" where
  "isinstance other cls = (cls = DOSCollection_class \<or> type_of other = cls)"

text \<open>
  Indexing a Python list or a numpy axis with an integer: a negative index counts from
  the end, and an index outside the range raises \<open>IndexError\<close>.
\<close>

definition py_index :: "'a list \<Rightarrow> int \<Rightarrow> error + 'a" where
  "py_index xs item =
     (if 0 \<le> item \<and> item < int (length xs) then Inr (xs ! nat item)
      else if item < 0 \<and> - int (length xs) \<le> item then Inr (xs ! nat (int (length xs) + item))
      else Inl IndexError)"

text \<open>
  \<open>self._weights[i, :] = w\<close>: a row of \<open>n\<close> entries is filled from an array of length
  \<open>n\<close>, or from an array of length one by broadcasting; \<open>ValueError\<close> otherwise.
\<close>

definition np_assign_row :: "nat \<Rightarrow> real list \<Rightarrow> error + real list" where
  "np_assign_row n w =
     (if length w = n then Inr w
      else if length w = 1 then Inr (replicate n (hd w))
      else Inl ValueError)"

subsection \<open>Construction\<close>

text \<open>
  \<open>RawDOSCollection.__init__\<close>: the entities are stored, then each one must be a
  RawDOSData.
\<close>

definition RawDOSCollection_init :: "'i dosdata list \<Rightarrow> error + 'i collection" where
  "RawDOSCollection_init dos_series =
     (if list_all (\<lambda>dos_data. kind dos_data = RawDOSData) dos_series
      then Inr (RawDOSCollection dos_series)
      else Inl TypeError)"

text \<open>
  The loop of \<open>GridDOSCollection.__init__\<close> over the entities: the class test, the test
  of the energy axis against \<open>_energies\<close>, the row of weights, and the info object,
  which is appended as it is.
\<close>

fun GridDOSCollection_init_loop ::
  "real list \<Rightarrow> 'i dosdata list \<Rightarrow> error + (real list list \<times> 'i list)" where
  "GridDOSCollection_init_loop es [] = Inr ([], [])"
| "GridDOSCollection_init_loop es (dos_data # rest) =
     (if kind dos_data \<noteq> GridDOSData then Inl TypeError
      else if length (get_energies dos_data) \<noteq> length es then Inl ValueError
      else case allclose (get_energies dos_data) es of
             Inl e \<Rightarrow> Inl e
           | Inr ok \<Rightarrow>
               if \<not> ok then Inl ValueError
               else (case np_assign_row (length es) (get_weights dos_data) of
                       Inl e \<Rightarrow> Inl e
                     | Inr row \<Rightarrow>
                         (case GridDOSCollection_init_loop es rest of
                            Inl e \<Rightarrow> Inl e
                          | Inr (rows, infos) \<Rightarrow> Inr (row # rows, info dos_data # infos))))"

text \<open>
  \<open>GridDOSCollection.__init__\<close>: \<open>dos_list[0]\<close> is read first and raises \<open>IndexError\<close>
  on an empty list.
\<close>

definition GridDOSCollection_init :: "'i dosdata list \<Rightarrow> error + 'i collection" where
  "GridDOSCollection_init dos_list =
     (case dos_list of
        [] \<Rightarrow> Inl IndexError
      | first # _ \<Rightarrow>
          (case GridDOSCollection_init_loop (get_energies first) dos_list of
             Inl e \<Rightarrow> Inl e
           | Inr (rows, infos) \<Rightarrow> Inr (GridDOSCollection (get_energies first) rows infos)))"

text \<open>\<open>type(self)(dos_series)\<close>: the constructor of a collection class.\<close>

fun collection_init :: "variant \<Rightarrow> 'i dosdata list \<Rightarrow> error + 'i collection" where
  "collection_init DOSCollection_class dos_series = Inr (DOSCollection dos_series)"
| "collection_init RawDOSCollection_class dos_series = RawDOSCollection_init dos_series"
| "collection_init GridDOSCollection_class dos_series = GridDOSCollection_init dos_series"

subsection \<open>Length, indexing, iteration\<close>

fun len :: "'i collection \<Rightarrow> nat" where
  "len (DOSCollection data) = length data"
| "len (RawDOSCollection data) = length data"
| "len (GridDOSCollection es rows infos) = length rows"

text \<open>
  \<open>__getitem__\<close> with an integer. The list-backed classes return the stored entity.
  \<open>GridDOSCollection\<close> constructs a GridDOSData from the axis, the row and the info
  object of the row; the info object is passed to the constructor, which keeps it.
\<close>

fun getitem :: "'i collection \<Rightarrow> int \<Rightarrow> error + 'i dosdata" where
  "getitem (DOSCollection data) item = py_index data item"
| "getitem (RawDOSCollection data) item = py_index data item"
| "getitem (GridDOSCollection es rows infos) item =
     (case py_index rows item of
        Inl e \<Rightarrow> Inl e
      | Inr row \<Rightarrow>
          (case py_index infos item of
             Inl e \<Rightarrow> Inl e
           | Inr i \<Rightarrow> GridDOSData_init es row i))"

text \<open>
  Iteration (\<open>for data in self\<close>) is the one of \<open>collections.abc.Sequence\<close>: it yields
  \<open>self[0]\<close>, \<open>self[1]\<close>, ... and ends at the first \<open>IndexError\<close>; any other exception
  is raised. On a stored list these are its elements. On a GridDOSCollection the items
  are constructed row by row.
\<close>

fun grid_iter :: "real list \<Rightarrow> real list list \<Rightarrow> 'i list \<Rightarrow> error + 'i dosdata list" where
  "grid_iter es [] infos = Inr []"
| "grid_iter es (row # rows) [] = Inr []"
| "grid_iter es (row # rows) (i # infos) =
     (case GridDOSData_init es row i of
        Inl e \<Rightarrow> (if e = IndexError then Inr [] else Inl e)
      | Inr dos_data \<Rightarrow>
          (case grid_iter es rows infos of
             Inl e \<Rightarrow> Inl e
           | Inr items \<Rightarrow> Inr (dos_data # items)))"

fun iter :: "'i collection \<Rightarrow> error + 'i dosdata list" where
  "iter (DOSCollection data) = Inr data"
| "iter (RawDOSCollection data) = Inr data"
| "iter (GridDOSCollection es rows infos) = grid_iter es rows infos"

subsection \<open>Sampling\<close>

text \<open>
  The methods of the entity classes that take the arguments \<open>(energies, width, smearing)\<close>,
  by name: \<open>DOSData\<close> defines \<open>_sample\<close>, and \<open>GridDOSData\<close> overrides it. The other
  names that the four classes define are \<open>get_energies\<close>, \<open>get_weights\<close>, \<open>copy\<close>,
  \<open>_almost_equals\<close>, \<open>_delta\<close>, \<open>_check_positive_width\<close>, \<open>sample_grid\<close>, \<open>plot\<close>,
  \<open>label_from_info\<close>, \<open>__add__\<close>, \<open>plot_deltas\<close>, \<open>_check_spacing\<close> and
  \<open>_interpret_smearing_args\<close>, and the attributes \<open>info\<close>, \<open>_data\<close> and \<open>sigma_cutoff\<close>;
  none of them is named \<open>sample\<close>.
\<close>

definition sampling_methods ::
  "(string \<times> ('i dosdata \<Rightarrow> real list \<Rightarrow> real \<Rightarrow> string
                \<Rightarrow> warning list \<times> (error + real list))) list" where
  "sampling_methods = [(''_sample'', dos_sample)]"

text \<open>
  \<open>data.sample(energies, width=width, smearing=smearing)\<close> in \<open>DOSCollection.sample\<close>:
  the attribute \<open>sample\<close> is looked up on the entity and the method found is called. On
  an entity that has no attribute of this name the lookup raises \<open>AttributeError\<close>.
\<close>

definition entity_sample ::
  "'i dosdata \<Rightarrow> real list \<Rightarrow> real \<Rightarrow> string \<Rightarrow> warning list \<times> (error + real list)" where
  "entity_sample data energies' width smearing =
     (case map_of sampling_methods ''sample'' of
        None \<Rightarrow> ([], Inl AttributeError)
      | Some method \<Rightarrow> method data energies' width smearing)"

text \<open>
  The list comprehension of \<open>DOSCollection.sample\<close>: one row per entity, in order; the
  first exception ends it. The warnings recorded so far are kept.
\<close>

fun sample_rows ::
  "'i dosdata list \<Rightarrow> real list \<Rightarrow> real \<Rightarrow> string \<Rightarrow> warning list \<times> (error + real list list)"
  where
  "sample_rows [] energies' width smearing = ([], Inr [])"
| "sample_rows (data # rest) energies' width smearing =
     (case entity_sample data energies' width smearing of
        (w1, Inl e) \<Rightarrow> (w1, Inl e)
      | (w1, Inr row) \<Rightarrow>
          (case sample_rows rest energies' width smearing of
             (w2, Inl e) \<Rightarrow> (w1 @ w2, Inl e)
           | (w2, Inr rows) \<Rightarrow> (w1 @ w2, Inr (row # rows))))"

text \<open>\<open>DOSCollection.sample\<close>; the result is the array whose rows are the sampled rows.\<close>

definition sample ::
  "'i collection \<Rightarrow> real list \<Rightarrow> real \<Rightarrow> string \<Rightarrow> warning list \<times> (error + real list list)"
  where
  "sample self energies' width smearing =
     (case iter self of
        Inl e \<Rightarrow> ([], Inl e)
      | Inr items \<Rightarrow> sample_rows items energies' width smearing)"

subsection \<open>Summation\<close>

text \<open>
  \<open>reduce(lambda x, y: x + y, self)\<close>: the items are added from the left; on no item
  at all \<open>reduce\<close> raises \<open>TypeError\<close>.
\<close>

fun reduce_from :: "Info dosdata \<Rightarrow> Info dosdata list \<Rightarrow> error + Info dosdata" where
  "reduce_from x [] = Inr x"
| "reduce_from x (y # rest) =
     (case dos_add x (DOS y) of
        Inl e \<Rightarrow> Inl e
      | Inr s \<Rightarrow> reduce_from s rest)"

definition reduce_add :: "Info dosdata list \<Rightarrow> error + Info dosdata" where
  "reduce_add items = (case items of [] \<Rightarrow> Inl TypeError | x # rest \<Rightarrow> reduce_from x rest)"

text \<open>\<open>DOSCollection.sum_all\<close>.\<close>

definition sum_all :: "Info collection \<Rightarrow> error + Info dosdata" where
  "sum_all self =
     (if len self = 0 then Inl IndexError
      else if len self = 1
      then (case getitem self 0 of Inl e \<Rightarrow> Inl e | Inr first \<Rightarrow> copy first)
      else (case iter self of Inl e \<Rightarrow> Inl e | Inr items \<Rightarrow> reduce_add items))"

text \<open>\<open>DOSCollection.total\<close>: \<open>data.info.update({'label': 'Total'})\<close> on the sum.\<close>

definition total :: "Info collection \<Rightarrow> error + Info dosdata" where
  "total self =
     (case sum_all self of
        Inl e \<Rightarrow> Inl e
      | Inr data \<Rightarrow> Inr (data\<lparr>info := (info data)(''label'' \<mapsto> ''Total'')\<rparr>))"

subsection \<open>Selection and grouped summation\<close>

text \<open>
  \<open>query.issubset(set(data.info.items()))\<close>, the query being the list of the keyword
  arguments with their values.
\<close>

definition matches_query :: "(string \<times> string) list \<Rightarrow> Info dosdata \<Rightarrow> bool" where
  "matches_query query data = list_all (\<lambda>(key, value). info data key = Some value) query"

text \<open>\<open>DOSCollection.select\<close>; the result \<open>None\<close> of Python is \<open>None\<close> here.\<close>

definition select :: "Info collection \<Rightarrow> (string \<times> string) list \<Rightarrow> error + Info collection option"
  where
  "select self info_selection =
     (case iter self of
        Inl e \<Rightarrow> Inl e
      | Inr items \<Rightarrow>
          (let matches = filter (matches_query info_selection) items
           in if matches \<noteq> []
              then (case collection_init (type_of self) matches of
                      Inl e \<Rightarrow> Inl e
                    | Inr c \<Rightarrow> Inr (Some c))
              else Inr None))"

text \<open>\<open>DOSCollection._sum_all_safely\<close>.\<close>

definition sum_all_safely :: "Info collection option \<Rightarrow> error + Info dosdata" where
  "sum_all_safely selection =
     (case selection of None \<Rightarrow> Inl ValueError | Some c \<Rightarrow> sum_all c)"

text \<open>
  One entry of \<open>all_combos\<close> in \<open>sum_by\<close>: the items of \<open>data.info\<close> whose key is among
  \<open>info_keys\<close>, as a sorted tuple without repetitions. The items are enumerated along
  \<open>info_keys\<close>; a mapping has one value per key, so these are the same pairs.
\<close>

definition combo_of :: "string list \<Rightarrow> Info \<Rightarrow> (string \<times> string) list" where
  "combo_of info_keys i =
     sort (remdups (List.map_filter (\<lambda>key. map_option (Pair key) (i key)) info_keys))"

text \<open>
  \<open>self.select(**dict(combo))\<close>: the pairs of the combo are passed as keyword
  arguments. The keyword \<open>self\<close> collides with the first parameter of \<open>select\<close>, and
  the call raises \<open>TypeError\<close>.
\<close>

definition select_kwargs ::
  "Info collection \<Rightarrow> (string \<times> string) list \<Rightarrow> error + Info collection option" where
  "select_kwargs self combo =
     (if ''self'' \<in> set (map fst combo) then Inl TypeError else select self combo)"

text \<open>The list comprehension of \<open>sum_by\<close> over \<open>unique_combos\<close>.\<close>

fun sum_groups :: "Info collection \<Rightarrow> (string \<times> string) list list \<Rightarrow> error + Info dosdata list"
  where
  "sum_groups self [] = Inr []"
| "sum_groups self (combo # rest) =
     (case select_kwargs self combo of
        Inl e \<Rightarrow> Inl e
      | Inr selection \<Rightarrow>
          (case sum_all_safely selection of
             Inl e \<Rightarrow> Inl e
           | Inr data \<Rightarrow>
               (case sum_groups self rest of
                  Inl e \<Rightarrow> Inl e
                | Inr collection_data \<Rightarrow> Inr (data # collection_data))))"

text \<open>\<open>DOSCollection.sum_by\<close>.\<close>

definition sum_by :: "Info collection \<Rightarrow> string list \<Rightarrow> error + Info collection" where
  "sum_by self info_keys =
     (case iter self of
        Inl e \<Rightarrow> Inl e
      | Inr items \<Rightarrow>
          (let all_combos = map (\<lambda>data. combo_of info_keys (info data)) items;
               unique_combos = sort (remdups all_combos)
           in case sum_groups self unique_combos of
                Inl e \<Rightarrow> Inl e
              | Inr collection_data \<Rightarrow> collection_init (type_of self) collection_data))"

subsection \<open>Equality\<close>

text \<open>
  The identity of an object that iterating a collection yields: \<open>Some i\<close> for a stored
  entity object with the identity \<open>i\<close>, and \<open>None\<close> for an object that \<open>__getitem__\<close>
  constructs during the iteration, which is identical to no other object.
\<close>

type_synonym object_id = nat

text \<open>
  \<open>a == b\<close> on two entities. None of the entity classes defines \<open>__eq__\<close>; the comparison
  they define is the method \<open>_almost_equals\<close>. So \<open>==\<close> is the comparison of
  \<open>object\<close>: \<open>True\<close> for one and the same object, \<open>False\<close> for two objects, whatever
  their data.
\<close>

definition entity_eq :: "object_id option \<Rightarrow> object_id option \<Rightarrow> bool" where
  "entity_eq a b =
     (case a of
        None \<Rightarrow> False
      | Some i \<Rightarrow> (case b of None \<Rightarrow> False | Some j \<Rightarrow> i = j))"

text \<open>\<open>all([a == b for a, b in zip(self, other)])\<close>.\<close>

definition all_eq :: "object_id option list \<Rightarrow> object_id option list \<Rightarrow> bool" where
  "all_eq items others = list_all (\<lambda>(a, b). entity_eq a b) (zip items others)"

text \<open>
  \<open>DOSCollection.__eq__\<close> with a collection as the other object. The entities enter by
  the identities of the objects that iterating \<open>self\<close> and \<open>other\<close> yields.
\<close>

definition DOSCollection_eq ::
  "'i collection \<Rightarrow> object_id option list \<Rightarrow> 'i collection \<Rightarrow> object_id option list \<Rightarrow> bool"
  where
  "DOSCollection_eq self items other others =
     (if \<not> isinstance other (type_of self) then False
      else if len self \<noteq> len other then False
      else all_eq items others)"

text \<open>
  \<open>a == b\<close> on two collections. When the class of \<open>b\<close> is a proper subclass of the class
  of \<open>a\<close>, Python calls the \<open>__eq__\<close> of \<open>b\<close> first, with the operands swapped.
  \<open>__eq__\<close> returns a truth value in every case, so the method called first decides.
\<close>

definition collection_eq ::
  "'i collection \<Rightarrow> object_id option list \<Rightarrow> 'i collection \<Rightarrow> object_id option list \<Rightarrow> bool"
  where
  "collection_eq a items b others =
     (if type_of b \<noteq> type_of a \<and> isinstance b (type_of a)
      then DOSCollection_eq b others a items
      else DOSCollection_eq a items b others)"

subsection \<open>Info objects held by reference\<close>

text \<open>
  Where the identity of an info mapping matters, an entity holds a reference to it, and
  a store gives the mapping behind each reference. The constructors above keep the info
  they are given, so with \<open>'i = ref\<close> they keep the reference: \<open>DOSData.__init__\<close>
  assigns \<open>self.info = info\<close> without copying.
\<close>

type_synonym ref = nat

type_synonym store = "ref \<Rightarrow> Info"

text \<open>
  A mutation of the mapping object behind \<open>r\<close>, such as \<open>d.info[key] = value\<close> or
  \<open>d.info.update(...)\<close>: the object is changed in place by \<open>f\<close>.
\<close>

definition info_update :: "store \<Rightarrow> ref \<Rightarrow> (Info \<Rightarrow> Info) \<Rightarrow> store" where
  "info_update h r f = h(r := f (h r))"

text \<open>What \<open>d.info\<close> reads in the store \<open>h\<close>.\<close>

definition info_in :: "store \<Rightarrow> ref dosdata \<Rightarrow> Info" where
  "info_in h d = h (info d)"

text \<open>The metadata that a GridDOSCollection stores for its rows, read in the store \<open>h\<close>.\<close>

definition stored_info :: "store \<Rightarrow> ref list \<Rightarrow> Info list" where
  "stored_info h infos = map h infos"

section \<open>Properties of the entities\<close>

text \<open>
  C7. For RawDOSData operands \<open>a\<close> and \<open>b\<close>, \<open>a + b\<close> returns a RawDOSData whose
  energies and weights are the concatenations of the operands' sequences, in order and
  with nothing removed, and whose info holds exactly the pairs that occur with the same
  value in both operands. With a right operand that is not a RawDOSData (a GridDOSData
  or any other object) the operator raises \<open>TypeError\<close>.
\<close>

theorem RawDOSData_add_concatenates:
  assumes "kind a = RawDOSData"
  shows "(kind b = RawDOSData \<longrightarrow>
            (\<exists>r. dos_add a (DOS b) = Inr r \<and> kind r = RawDOSData
                 \<and> energies r = energies a @ energies b
                 \<and> weights r = weights a @ weights b
                 \<and> (\<forall>k v. info r k = Some v \<longleftrightarrow> info a k = Some v \<and> info b k = Some v)))
         \<and> (kind b \<noteq> RawDOSData \<longrightarrow> dos_add a (DOS b) = Inl TypeError)
         \<and> dos_add a NotDOS = Inl TypeError"
  using assms
  by (auto simp: dos_add_def RawDOSData_add_def GeneralDOSData_init_def info_intersection_def
           split: option.splits)

theorem RawDOSData_add_concatenates_witness:
  "kind \<lparr>kind = RawDOSData, energies = [1], weights = [2],
         info = [''a'' \<mapsto> ''1'', ''b'' \<mapsto> ''1'']\<rparr> = RawDOSData
   \<and> (\<exists>r. dos_add \<lparr>kind = RawDOSData, energies = [1], weights = [2],
                      info = [''a'' \<mapsto> ''1'', ''b'' \<mapsto> ''1'']\<rparr>
              (DOS \<lparr>kind = RawDOSData, energies = [3], weights = [4],
                      info = [''a'' \<mapsto> ''2'', ''b'' \<mapsto> ''1'']\<rparr>) = Inr r
          \<and> energies r = [1, 3] \<and> weights r = [2, 4]
          \<and> info r ''a'' = None \<and> info r ''b'' = Some ''1'')
   \<and> dos_add \<lparr>kind = RawDOSData, energies = [1], weights = [2],
                  info = [''a'' \<mapsto> ''1'', ''b'' \<mapsto> ''1'']\<rparr>
          (DOS \<lparr>kind = GridDOSData, energies = [3], weights = [4], info = Map.empty\<rparr>)
       = Inl TypeError"
proof -
  let ?a = "\<lparr>kind = RawDOSData, energies = [1::real], weights = [2::real],
              info = [''a'' \<mapsto> ''1'', ''b'' \<mapsto> ''1'']\<rparr>"
  let ?b = "\<lparr>kind = RawDOSData, energies = [3::real], weights = [4::real],
              info = [''a'' \<mapsto> ''2'', ''b'' \<mapsto> ''1'']\<rparr>"
  let ?g = "\<lparr>kind = GridDOSData, energies = [3::real], weights = [4::real],
              info = (Map.empty :: Info)\<rparr>"
  have k: "kind ?a = RawDOSData" by simp
  from RawDOSData_add_concatenates [OF k, of ?b]
  obtain r where r: "dos_add ?a (DOS ?b) = Inr r" "energies r = energies ?a @ energies ?b"
      "weights r = weights ?a @ weights ?b"
      "\<forall>k v. info r k = Some v \<longleftrightarrow> info ?a k = Some v \<and> info ?b k = Some v"
    by auto
  have "info r ''a'' = None"
  proof (cases "info r ''a''")
    case (Some v)
    with r(4) have "''1'' = v \<and> ''2'' = v" by simp
    then have "''1'' = ''2''" by (rule conjE) (rule trans, assumption, rule sym)
    then show ?thesis by simp
  qed simp
  moreover have "info r ''b'' = Some ''1''" using r(4) by simp
  moreover have "dos_add ?a (DOS ?g) = Inl TypeError"
    using RawDOSData_add_concatenates [OF k, of ?g] by simp
  ultimately show ?thesis using r by auto
qed

text \<open>
  With a recognised smearing name, and a weight for every stored energy from position
  \<open>i\<close> on, the sampling loop returns one value per sampled energy.
\<close>

lemma sample_loop_returns:
  assumes "str_lower smearing = ''gauss''" and "i + length raw \<le> length ws"
    and "length acc = length es"
  shows "\<exists>base. sample_loop es width smearing ws i raw acc = Inr base \<and> length base = length es"
  using assms
  by (induction raw arbitrary: i acc) (auto simp: DOSData_delta_def)

lemma DOSData_sample_returns:
  assumes "0 < width" and "str_lower smearing = ''gauss''"
    and "length (weights self) = length (energies self)"
  shows "\<exists>base. DOSData_sample self es width smearing = Inr base \<and> length base = length es"
  using assms sample_loop_returns [of smearing 0 "energies self" "weights self"
      "replicate (length es) 0" es width]
  by (simp add: DOSData_sample_def get_weights_def get_energies_def)

text \<open>
  C8. For a GridDOSData with at least two grid points and a width above zero,
  \<open>_sample\<close> is the base-class sampling multiplied, point by point, by the spacing of
  the stored grid (the second energy minus the first); an error of the base class is
  passed on. A warning is recorded exactly when the width is below twice that spacing,
  and the value is the same with or without it. With a recognised smearing name and
  stored rows of equal length the base class returns one value per sampled energy.
\<close>

theorem GridDOSData_sample_scales_base:
  assumes "2 \<le> length (energies self)" and "0 < width"
  shows "GridDOSData_sample self es width smearing =
           (if width < 2 * (energies self ! 1 - energies self ! 0)
            then [SmallWidthWarning] else [],
            case DOSData_sample self es width smearing of
              Inl e \<Rightarrow> Inl e
            | Inr base \<Rightarrow> Inr (map (\<lambda>y. y * (energies self ! 1 - energies self ! 0)) base))
         \<and> (str_lower smearing = ''gauss'' \<and> length (weights self) = length (energies self)
              \<longrightarrow> (\<exists>base. DOSData_sample self es width smearing = Inr base
                          \<and> length base = length es))"
proof -
  have "GridDOSData_sample self es width smearing =
           (if width < 2 * (energies self ! 1 - energies self ! 0)
            then [SmallWidthWarning] else [],
            case DOSData_sample self es width smearing of
              Inl e \<Rightarrow> Inl e
            | Inr base \<Rightarrow> Inr (map (\<lambda>y. y * (energies self ! 1 - energies self ! 0)) base))"
    using assms
    by (simp add: GridDOSData_sample_def GridDOSData_check_spacing_def Let_def
          del: One_nat_def)
  then show ?thesis
    using DOSData_sample_returns [OF assms(2), of smearing self es] by blast
qed

theorem GridDOSData_sample_scales_base_witness:
  "2 \<le> length (energies \<lparr>kind = GridDOSData, energies = [0, 1], weights = [1, 1], info = ()\<rparr>)
   \<and> (0::real) < 1
   \<and> fst (GridDOSData_sample \<lparr>kind = GridDOSData, energies = [0, 1], weights = [1, 1], info = ()\<rparr>
             [0] 1 ''Gauss'') = [SmallWidthWarning]
   \<and> fst (GridDOSData_sample \<lparr>kind = GridDOSData, energies = [0, 1], weights = [1, 1], info = ()\<rparr>
             [0] 3 ''Gauss'') = []
   \<and> (\<exists>base. DOSData_sample \<lparr>kind = GridDOSData, energies = [0, 1], weights = [1, 1], info = ()\<rparr>
                 [0] 1 ''Gauss'' = Inr base
             \<and> length base = 1
             \<and> snd (GridDOSData_sample
                      \<lparr>kind = GridDOSData, energies = [0, 1], weights = [1, 1], info = ()\<rparr>
                      [0] 1 ''Gauss'') = Inr (map (\<lambda>y. y * (1 - 0)) base))"
proof -
  let ?g = "\<lparr>kind = GridDOSData, energies = [0, 1::real], weights = [1, 1::real], info = ()\<rparr>"
  have len: "2 \<le> length (energies ?g)" by simp
  have low: "str_lower ''Gauss'' = ''gauss''"
    by code_simp
  note t1 = GridDOSData_sample_scales_base [OF len, of 1 "[0]" "''Gauss''"]
  note t3 = GridDOSData_sample_scales_base [OF len, of 3 "[0]" "''Gauss''"]
  from t1 low obtain base where b: "DOSData_sample ?g [0] 1 ''Gauss'' = Inr base" "length base = 1"
    by auto
  show ?thesis using t1 t3 b by simp
qed

subsection \<open>Equal lengths of the stored rows\<close>

lemma GeneralDOSData_init_lengths:
  "GeneralDOSData_init k es ws i = Inr d \<Longrightarrow> lengths_agree d"
  by (auto simp: GeneralDOSData_init_def lengths_agree_def split: if_splits)

lemma GridDOSData_init_lengths:
  "GridDOSData_init es ws i = Inr d \<Longrightarrow> lengths_agree d"
  by (auto simp: GridDOSData_init_def dest: GeneralDOSData_init_lengths
           split: if_splits sum.splits)

lemma dosdata_init_lengths:
  "dosdata_init k es ws i = Inr d \<Longrightarrow> lengths_agree d"
  by (auto simp: dosdata_init_def dest: GeneralDOSData_init_lengths GridDOSData_init_lengths
           split: kind.splits)

lemma dos_add_lengths:
  "lengths_agree a \<Longrightarrow> lengths_agree b \<Longrightarrow> dos_add a (DOS b) = Inr d \<Longrightarrow> lengths_agree d"
  by (auto simp: dos_add_def RawDOSData_add_def GridDOSData_add_def GeneralDOSData_init_def
                 lengths_agree_def
           dest: GridDOSData_init_lengths
           split: kind.splits if_splits sum.splits)

lemma sample_grid_lengths:
  assumes "snd (sample_grid self npts xmin xmax padding width smearing) = Inr d"
  shows "lengths_agree d"
proof -
  from assms obtain eg wg where "GridDOSData_init eg wg (info self) = Inr d"
    unfolding sample_grid_def
    by (simp split: sum.splits prod.splits)
  then show ?thesis by (rule GridDOSData_init_lengths)
qed

text \<open>Evaluations of \<open>linspace\<close> used at concrete inputs.\<close>

lemma linspace_0_2_3: "linspace 0 2 3 = Inr [0, 1, 2]"
  by (simp add: linspace_def upt_conv_Cons)

lemma linspace_padded: "linspace (1 + - (3 * (1 / 10))) (1 + 3 * (1 / 10)) 2 = Inr [7 / 10, 13 / 10]"
  by (simp add: linspace_def upt_conv_Cons)

lemma linspace_7_13: "linspace (7 / 10) (13 / 10) 2 = Inr [7 / 10, 13 / 10]"
  by (simp add: linspace_def upt_conv_Cons)

lemma lower_Gauss: "str_lower ''Gauss'' = ''gauss''"
  by code_simp

lemma GridDOSData_init_0_1_2:
  "GridDOSData_init [0, 1, 2] [w0, w1, w2] i
     = Inr \<lparr>kind = GridDOSData, energies = [0, 1, 2], weights = [w0, w1, w2], info = i\<rparr>"
  by (simp add: GridDOSData_init_def linspace_0_2_3 allclose_def isclose_def
        GeneralDOSData_init_def)

lemma sample_grid_example:
  "\<exists>ws. snd (sample_grid \<lparr>kind = RawDOSData, energies = [1], weights = [1], info = Map.empty\<rparr>
                2 None None 3 (1 / 10) ''Gauss'')
         = Inr \<lparr>kind = GridDOSData, energies = [7 / 10, 13 / 10], weights = ws,
                info = Map.empty\<rparr>"
  unfolding sample_grid_def sample_grid_bound_def py_min_def py_max_def get_energies_def
  by (simp add: linspace_padded linspace_7_13 dos_sample_def DOSData_sample_def
        DOSData_delta_def lower_Gauss get_energies_def get_weights_def GridDOSData_init_def
        allclose_def isclose_def GeneralDOSData_init_def)

text \<open>
  C9. Every entity that an operation returns has as many stored energies as stored
  weights: the constructors of both classes, \<open>copy()\<close>, the \<open>+\<close> operator (on operands
  that have the property) and \<open>sample_grid()\<close>.
\<close>

theorem stored_lengths_agree:
  "(dosdata_init k es ws i = Inr d \<longrightarrow> lengths_agree d)
   \<and> (copy d0 = Inr d \<longrightarrow> lengths_agree d)
   \<and> (lengths_agree a \<and> lengths_agree b \<and> dos_add a (DOS b) = Inr d \<longrightarrow> lengths_agree d)
   \<and> (snd (sample_grid d0 npts xmin xmax padding width smearing) = Inr d \<longrightarrow> lengths_agree d)"
proof (intro conjI impI)
  show "lengths_agree d" if "dosdata_init k es ws i = Inr d"
    using that by (rule dosdata_init_lengths)
  show "lengths_agree d" if "copy d0 = Inr d"
    using that unfolding copy_def by (rule dosdata_init_lengths)
  show "lengths_agree d" if "lengths_agree a \<and> lengths_agree b \<and> dos_add a (DOS b) = Inr d"
    using that dos_add_lengths by blast
  show "lengths_agree d" if "snd (sample_grid d0 npts xmin xmax padding width smearing) = Inr d"
    using that by (rule sample_grid_lengths)
qed

theorem stored_lengths_agree_witness:
  "(\<exists>d. dosdata_init GridDOSData [0, 1, 2] [5, 6, 7] (Map.empty :: Info) = Inr d
        \<and> lengths_agree d)
   \<and> (\<exists>d. dosdata_init RawDOSData [1, 5] [2, 2] (Map.empty :: Info) = Inr d
        \<and> lengths_agree d)
   \<and> (\<exists>d. copy \<lparr>kind = GridDOSData, energies = [0, 1, 2], weights = [5, 6, 7],
                 info = Map.empty\<rparr> = Inr d \<and> lengths_agree d)
   \<and> (\<exists>d. lengths_agree \<lparr>kind = RawDOSData, energies = [1], weights = [2],
                          info = (Map.empty :: Info)\<rparr>
        \<and> lengths_agree \<lparr>kind = RawDOSData, energies = [3, 3], weights = [4, 5],
                          info = (Map.empty :: Info)\<rparr>
        \<and> dos_add \<lparr>kind = RawDOSData, energies = [1], weights = [2], info = Map.empty\<rparr>
             (DOS \<lparr>kind = RawDOSData, energies = [3, 3], weights = [4, 5],
                    info = Map.empty\<rparr>) = Inr d
        \<and> lengths_agree d \<and> energies d = [1, 3, 3])
   \<and> (\<exists>d. lengths_agree \<lparr>kind = GridDOSData, energies = [0, 1, 2], weights = [5, 6, 7],
                          info = (Map.empty :: Info)\<rparr>
        \<and> dos_add \<lparr>kind = GridDOSData, energies = [0, 1, 2], weights = [5, 6, 7],
                    info = Map.empty\<rparr>
             (DOS \<lparr>kind = GridDOSData, energies = [0, 1, 2], weights = [5, 6, 7],
                    info = Map.empty\<rparr>) = Inr d
        \<and> lengths_agree d \<and> weights d = [10, 12, 14])
   \<and> (\<exists>d. snd (sample_grid \<lparr>kind = RawDOSData, energies = [1], weights = [1],
                              info = Map.empty\<rparr> 2 None None 3 (1 / 10) ''Gauss'') = Inr d
        \<and> lengths_agree d \<and> energies d = [7 / 10, 13 / 10])"
proof -
  let ?g = "\<lparr>kind = GridDOSData, energies = [0, 1, 2::real], weights = [5, 6, 7::real],
              info = (Map.empty :: Info)\<rparr>"
  let ?r1 = "\<lparr>kind = RawDOSData, energies = [1::real], weights = [2::real],
               info = (Map.empty :: Info)\<rparr>"
  let ?r2 = "\<lparr>kind = RawDOSData, energies = [3, 3::real], weights = [4, 5::real],
               info = (Map.empty :: Info)\<rparr>"
  let ?s = "\<lparr>kind = RawDOSData, energies = [1::real], weights = [1::real],
              info = (Map.empty :: Info)\<rparr>"
  have c1: "dosdata_init GridDOSData [0, 1, 2] [5, 6, 7] (Map.empty :: Info) = Inr ?g"
    by (simp add: dosdata_init_def GridDOSData_init_0_1_2)
  have c2: "\<exists>d. dosdata_init RawDOSData [1, 5] [2, 2] (Map.empty :: Info) = Inr d"
    by (simp add: dosdata_init_def GeneralDOSData_init_def)
  have c3: "copy ?g = Inr ?g"
    by (simp add: copy_def get_energies_def get_weights_def dosdata_init_def
          GridDOSData_init_0_1_2)
  have la: "lengths_agree ?r1" "lengths_agree ?r2" "lengths_agree ?g"
    by (simp_all add: lengths_agree_def)
  have c4: "\<exists>d. dos_add ?r1 (DOS ?r2) = Inr d \<and> energies d = [1, 3, 3]"
    by (simp add: dos_add_def RawDOSData_add_def GeneralDOSData_init_def)
  have c5: "\<exists>d. dos_add ?g (DOS ?g) = Inr d \<and> weights d = [10, 12, 14]"
    by (simp add: dos_add_def GridDOSData_add_def get_energies_def get_weights_def
          allclose_def isclose_def np_add_def GridDOSData_init_0_1_2)
  from sample_grid_example obtain ws where
    c6: "snd (sample_grid ?s 2 None None 3 (1 / 10) ''Gauss'')
           = Inr \<lparr>kind = GridDOSData, energies = [7 / 10, 13 / 10], weights = ws,
                  info = Map.empty\<rparr>"
    by blast
  let ?R = "\<lparr>kind = GridDOSData, energies = [7 / 10, 13 / 10], weights = ws,
              info = (Map.empty :: Info)\<rparr>"
  note t = stored_lengths_agree
  show ?thesis
  proof (intro conjI)
    show "\<exists>d. dosdata_init GridDOSData [0, 1, 2] [5, 6, 7] (Map.empty :: Info) = Inr d
             \<and> lengths_agree d"
      using c1 t [of GridDOSData "[0, 1, 2]" "[5, 6, 7]" "Map.empty :: Info" ?g] by blast
    show "\<exists>d. dosdata_init RawDOSData [1, 5] [2, 2] (Map.empty :: Info) = Inr d
             \<and> lengths_agree d"
      using c2 t [of RawDOSData "[1, 5]" "[2, 2]" "Map.empty :: Info"] by blast
    show "\<exists>d. copy ?g = Inr d \<and> lengths_agree d"
      using c3 t [of _ _ _ _ ?g ?g] by blast
    show "\<exists>d. lengths_agree ?r1 \<and> lengths_agree ?r2 \<and> dos_add ?r1 (DOS ?r2) = Inr d
             \<and> lengths_agree d \<and> energies d = [1, 3, 3]"
      using c4 la t [of _ _ _ _ _ _ ?r1 ?r2] by blast
    show "\<exists>d. lengths_agree ?g \<and> dos_add ?g (DOS ?g) = Inr d
             \<and> lengths_agree d \<and> weights d = [10, 12, 14]"
      using c5 la t [of _ _ _ _ _ _ ?g ?g] by blast
    show "\<exists>d. snd (sample_grid ?s 2 None None 3 (1 / 10) ''Gauss'') = Inr d
             \<and> lengths_agree d \<and> energies d = [7 / 10, 13 / 10]"
    proof (intro exI conjI)
      show "snd (sample_grid ?s 2 None None 3 (1 / 10) ''Gauss'') = Inr ?R"
        by (rule c6)
      show "lengths_agree ?R"
        using c6 t [where ?d0.0 = ?s and npts = 2 and xmin = None and xmax = None
            and padding = 3 and width = "1 / 10" and smearing = "''Gauss''" and d = ?R]
        by blast
      show "energies ?R = [7 / 10, 13 / 10]"
        by simp
    qed
  qed
qed

section \<open>Properties of the collections\<close>

subsection \<open>Iteration over a constructed collection\<close>

text \<open>
  The statements below speak of the items of a collection, \<open>iter c = Inr items\<close>. A
  list-backed collection yields its stored list. A GridDOSCollection that its constructor
  returns, from entities of which the first is a GridDOSData of its constructor, yields
  one item per row.
\<close>

lemma GridDOSData_init_other_row:
  assumes "GridDOSData_init es ws i = Inr d" and "length row = length es"
  shows "GridDOSData_init es row j
           = Inr \<lparr>kind = GridDOSData, energies = es, weights = row, info = j\<rparr>"
  using assms
  by (auto simp: GridDOSData_init_def GeneralDOSData_init_def split: if_splits sum.splits)

lemma np_assign_row_length: "np_assign_row n w = Inr row \<Longrightarrow> length row = n"
  by (auto simp: np_assign_row_def split: if_splits)

lemma GridDOSCollection_init_loop_rows:
  "GridDOSCollection_init_loop es ds = Inr (rows, infos) \<Longrightarrow>
     length rows = length ds \<and> length infos = length ds
     \<and> list_all (\<lambda>row. length row = length es) rows"
proof (induction ds arbitrary: rows infos)
  case Nil
  then show ?case by simp
next
  case (Cons d ds)
  from Cons.prems obtain row rows' infos' where
    r: "np_assign_row (length es) (get_weights d) = Inr row"
      "GridDOSCollection_init_loop es ds = Inr (rows', infos')"
      "rows = row # rows'" "infos = info d # infos'"
    by (auto split: if_splits sum.splits prod.splits)
  from Cons.IH [OF r(2)] np_assign_row_length [OF r(1)] r(3,4) show ?case by simp
qed

lemma grid_iter_all:
  assumes "GridDOSData_init es ws i = Inr d"
    and "length rows = length infos" and "list_all (\<lambda>row. length row = length es) rows"
  shows "\<exists>items. grid_iter es rows infos = Inr items \<and> length items = length rows"
  using assms(2,3)
proof (induction rows infos rule: list_induct2)
  case Nil
  then show ?case by simp
next
  case (Cons row rows j infos)
  then show ?case
    using GridDOSData_init_other_row [OF assms(1), of row j] by auto
qed

lemma GridDOSCollection_init_iter:
  assumes "GridDOSCollection_init ds = Inr c" and "valid_grid (hd ds)"
  shows "\<exists>items. iter c = Inr items \<and> length items = len c \<and> len c = length ds"
proof (cases ds)
  case Nil
  with assms(1) show ?thesis by (simp add: GridDOSCollection_init_def)
next
  case (Cons first rest)
  with assms(1) obtain rows infos where
    l: "GridDOSCollection_init_loop (get_energies first) ds = Inr (rows, infos)"
    and c: "c = GridDOSCollection (get_energies first) rows infos"
    by (auto simp: GridDOSCollection_init_def simp del: GridDOSCollection_init_loop.simps
             split: sum.splits prod.splits)
  from assms(2) Cons
  have v: "GridDOSData_init (get_energies first) (weights first) (info first) = Inr first"
    by (simp add: valid_grid_def get_energies_def)
  from GridDOSCollection_init_loop_rows [OF l]
  have "length rows = length infos" "list_all (\<lambda>row. length row = length (get_energies first)) rows"
    "length rows = length ds"
    by simp_all
  with grid_iter_all [OF v, of rows infos] c show ?thesis by auto
qed

text \<open>
  C10. Constructing a GridDOSCollection from no entities raises \<open>IndexError\<close>: the axis
  of the first element is read before any class or axis test. \<open>IndexError\<close> is neither
  \<open>TypeError\<close> nor \<open>ValueError\<close>.
\<close>

theorem GridDOSCollection_init_empty:
  "GridDOSCollection_init [] = Inl IndexError
   \<and> collection_init GridDOSCollection_class [] = Inl IndexError
   \<and> IndexError \<noteq> TypeError \<and> IndexError \<noteq> ValueError"
  by (simp add: GridDOSCollection_init_def)

subsection \<open>Summation of an empty collection\<close>

text \<open>
  C3, as the spec states it: summing a collection without entities fails with
  \<open>ValueError\<close>. The empty DOSCollection refutes it: \<open>sum_all\<close> and \<open>total\<close> raise
  \<open>IndexError\<close>.
\<close>

theorem sum_all_empty_not_ValueError:
  "len (DOSCollection []) = 0
   \<and> sum_all (DOSCollection []) \<noteq> Inl ValueError
   \<and> total (DOSCollection []) \<noteq> Inl ValueError
   \<and> sum_all (DOSCollection []) = Inl IndexError"
  by (simp add: sum_all_def total_def)

text \<open>
  C3, amended. For every collection with zero contained entities, \<open>sum_all()\<close>, and
  \<open>total()\<close>, which calls it, raise \<open>IndexError\<close>.
\<close>

theorem sum_all_empty_IndexError:
  assumes "len c = 0"
  shows "sum_all c = Inl IndexError \<and> total c = Inl IndexError"
  using assms by (simp add: sum_all_def total_def)

theorem sum_all_empty_IndexError_witness:
  "len (DOSCollection []) = 0 \<and> sum_all (DOSCollection []) = Inl IndexError
   \<and> total (DOSCollection []) = Inl IndexError
   \<and> len (RawDOSCollection []) = 0 \<and> sum_all (RawDOSCollection []) = Inl IndexError
   \<and> total (RawDOSCollection []) = Inl IndexError"
proof -
  have a: "len (DOSCollection ([] :: Info dosdata list)) = 0" by simp
  have b: "len (RawDOSCollection ([] :: Info dosdata list)) = 0" by simp
  show ?thesis
    using sum_all_empty_IndexError [OF a] sum_all_empty_IndexError [OF b] by simp
qed

subsection \<open>Grouped summation\<close>

text \<open>
  C4 at a failing input. The collection holds a RawDOSData with info \<open>{'a': '1'}\<close> and
  a RawDOSData with empty info; \<open>sum_by('a')\<close> is called. The restricted sub-mappings
  are \<open>{'a': '1'}\<close> and the empty one, so the groups of the claim are the first entity
  alone and the second entity alone. The code returns two entities, ordered as the
  claim says, but \<open>select()\<close> with the empty combo matches every entity: the first
  output entity is the sum of both entities, and the data of the first entity is counted
  in both outputs.
\<close>

theorem sum_by_counts_entity_twice:
  "combo_of [''a''] [''a'' \<mapsto> ''1''] = [(''a'', ''1'')]
   \<and> combo_of [''a''] Map.empty = []
   \<and> (\<exists>s0 s1.
         sum_by (DOSCollection
                   [\<lparr>kind = RawDOSData, energies = [1], weights = [2],
                       info = [''a'' \<mapsto> ''1'']\<rparr>,
                    \<lparr>kind = RawDOSData, energies = [3], weights = [4], info = Map.empty\<rparr>])
                [''a'']
           = Inr (DOSCollection [s0, s1])
         \<and> energies s0 = [1, 3] \<and> weights s0 = [2, 4]
         \<and> energies s1 = [1] \<and> weights s1 = [2] \<and> info s1 ''a'' = Some ''1'')"
proof -
  have c1: "combo_of [''a''] [''a'' \<mapsto> ''1''] = [(''a'', ''1'')]"
    by (simp add: combo_of_def List.map_filter_def)
  have c2: "combo_of [''a''] Map.empty = []"
    by (simp add: combo_of_def List.map_filter_def)
  show ?thesis
    by (simp add: sum_by_def c1 c2 Let_def select_kwargs_def select_def matches_query_def
          sum_all_safely_def sum_all_def reduce_add_def dos_add_def RawDOSData_add_def
          GeneralDOSData_init_def copy_def dosdata_init_def get_energies_def get_weights_def
          py_index_def)
qed

subsection \<open>The total\<close>

lemma GridDOSData_init_fields:
  "GridDOSData_init es ws i = Inr d \<Longrightarrow> d = \<lparr>kind = GridDOSData, energies = es, weights = ws, info = i\<rparr>"
  by (auto simp: GridDOSData_init_def GeneralDOSData_init_def split: if_splits sum.splits)

lemma dos_add_info:
  "dos_add a (DOS b) = Inr s \<Longrightarrow> info s = info_intersection (info a) (info b)"
  by (auto simp: dos_add_def RawDOSData_add_def GridDOSData_add_def GeneralDOSData_init_def
           dest!: GridDOSData_init_fields
           split: kind.splits if_splits sum.splits)

lemma copy_fields: "copy d = Inr s \<Longrightarrow> s = d"
  by (cases d)
     (auto simp: copy_def dosdata_init_def GeneralDOSData_init_def get_energies_def get_weights_def
           dest!: GridDOSData_init_fields split: kind.splits if_splits)

lemma info_intersection_Some:
  "info_intersection a b k = Some v \<longleftrightarrow> a k = Some v \<and> b k = Some v"
  by (auto simp: info_intersection_def split: option.splits)

lemma reduce_from_info:
  "reduce_from x ys = Inr s \<Longrightarrow>
     info s k = Some v \<longleftrightarrow> info x k = Some v \<and> (\<forall>d\<in>set ys. info d k = Some v)"
proof (induction ys arbitrary: x)
  case Nil
  then show ?case by simp
next
  case (Cons y ys)
  from Cons.prems obtain m where m: "dos_add x (DOS y) = Inr m" and r: "reduce_from m ys = Inr s"
    by (auto split: sum.splits)
  from Cons.IH [OF r] dos_add_info [OF m] show ?case
    by (auto simp: info_intersection_Some)
qed

lemma iter_single:
  assumes "len c = 1" and "iter c = Inr items" and "items \<noteq> []"
  shows "getitem c 0 = Inr (hd items)"
proof (cases c)
  case (DOSCollection data)
  with assms show ?thesis by (cases data) (auto simp: py_index_def)
next
  case (RawDOSCollection data)
  with assms show ?thesis by (cases data) (auto simp: py_index_def)
next
  case (GridDOSCollection es rows infos)
  with assms obtain row where rows: "rows = [row]" by (cases rows) auto
  with assms GridDOSCollection show ?thesis
    by (cases infos) (auto simp: py_index_def split: sum.splits if_splits)
qed

text \<open>
  C6, as the spec states it: on every non-empty collection \<open>total()\<close> returns the sum,
  with the info \<open>{'label': 'Total'}\<close>. A collection of one RawDOSData with info
  \<open>{'a': '1'}\<close> refutes it: the total keeps the pair \<open>'a': '1'\<close>. A collection of a
  RawDOSData and a GridDOSData refutes it as well: the total raises \<open>TypeError\<close>.
\<close>

theorem total_info_not_only_label:
  "len (DOSCollection [\<lparr>kind = RawDOSData, energies = [1], weights = [2],
                         info = [''a'' \<mapsto> ''1'']\<rparr>]) = 1
   \<and> (\<exists>t. total (DOSCollection [\<lparr>kind = RawDOSData, energies = [1], weights = [2],
                                    info = [''a'' \<mapsto> ''1'']\<rparr>]) = Inr t
          \<and> info t ''a'' = Some ''1''
          \<and> info t \<noteq> [''label'' \<mapsto> ''Total''])
   \<and> total (DOSCollection [\<lparr>kind = RawDOSData, energies = [1], weights = [2],
                              info = Map.empty\<rparr>,
                            \<lparr>kind = GridDOSData, energies = [0, 1, 2], weights = [5, 6, 7],
                              info = Map.empty\<rparr>]) = Inl TypeError"
proof -
  have "([''a'' \<mapsto> ''1'', ''label'' \<mapsto> ''Total''] :: Info) ''a''
          \<noteq> ([''label'' \<mapsto> ''Total''] :: Info) ''a''"
    by simp
  then have "([''a'' \<mapsto> ''1'', ''label'' \<mapsto> ''Total''] :: Info) \<noteq> [''label'' \<mapsto> ''Total'']"
    by metis
  then show ?thesis
    by (simp add: total_def sum_all_def py_index_def copy_def dosdata_init_def
          GeneralDOSData_init_def get_energies_def get_weights_def reduce_add_def dos_add_def
          RawDOSData_add_def)
qed

text \<open>
  C6, amended. On a non-empty collection \<open>sum_all()\<close> is the copy of the single entity
  or the sum of all entities from the left with \<open>+\<close>. When it raises, \<open>total()\<close> raises
  the same exception. When it returns, \<open>total()\<close> returns that entity with the pair
  \<open>'label': 'Total'\<close> written into its info: the class, the energies and the weights
  are those of the sum, and besides the label the info holds exactly the pairs that all
  contained entities have in common.
\<close>

theorem total_is_labelled_sum:
  assumes "iter c = Inr items" and "items \<noteq> []"
  shows "sum_all c = (if len c = 1 then copy (hd items) else reduce_add items)
     \<and> (\<forall>e. sum_all c = Inl e \<longrightarrow> total c = Inl e)
     \<and> (\<forall>s. sum_all c = Inr s \<longrightarrow>
           (\<exists>t. total c = Inr t \<and> kind t = kind s \<and> energies t = energies s
                \<and> weights t = weights s \<and> info t ''label'' = Some ''Total''
                \<and> (\<forall>k v. k \<noteq> ''label'' \<longrightarrow>
                      (info t k = Some v \<longleftrightarrow> (\<forall>d\<in>set items. info d k = Some v)))))"
proof (intro conjI allI impI)
  have l0: "len c \<noteq> 0" using assms by (cases c) (auto elim: grid_iter.elims)
  show sa: "sum_all c = (if len c = 1 then copy (hd items) else reduce_add items)"
    using assms l0 iter_single [of c items] by (simp add: sum_all_def)
  show "total c = Inl e" if "sum_all c = Inl e" for e
    using that by (simp add: total_def)
  fix s assume s: "sum_all c = Inr s"
  have inf: "info s k = Some v \<longleftrightarrow> (\<forall>d\<in>set items. info d k = Some v)" for k v
  proof (cases "len c = 1")
    case True
    with sa s have "copy (hd items) = Inr s" by simp
    then have "s = hd items" by (rule copy_fields)
    moreover have "items = [hd items]" 
      using True assms by (cases c) (auto elim!: grid_iter.elims split: sum.splits if_splits simp: length_Suc_conv)
    ultimately show ?thesis by (metis empty_iff empty_set list.set_intros(1) set_ConsD)
  next
    case False
    with sa s have "reduce_add items = Inr s" by simp
    then obtain x ys where "items = x # ys" "reduce_from x ys = Inr s"
      by (auto simp: reduce_add_def split: list.splits)
    then show ?thesis using reduce_from_info [of x ys s k v] by auto
  qed
  show "\<exists>t. total c = Inr t \<and> kind t = kind s \<and> energies t = energies s
                \<and> weights t = weights s \<and> info t ''label'' = Some ''Total''
                \<and> (\<forall>k v. k \<noteq> ''label'' \<longrightarrow>
                      (info t k = Some v \<longleftrightarrow> (\<forall>d\<in>set items. info d k = Some v)))"
    using s inf by (simp add: total_def)
qed

theorem total_is_labelled_sum_witness:
  "iter (DOSCollection
           [\<lparr>kind = RawDOSData, energies = [1], weights = [2],
               info = [''a'' \<mapsto> ''1'', ''b'' \<mapsto> ''1'']\<rparr>,
            \<lparr>kind = RawDOSData, energies = [3], weights = [4],
               info = [''a'' \<mapsto> ''2'', ''b'' \<mapsto> ''1'']\<rparr>])
     = Inr [\<lparr>kind = RawDOSData, energies = [1], weights = [2],
               info = [''a'' \<mapsto> ''1'', ''b'' \<mapsto> ''1'']\<rparr>,
            \<lparr>kind = RawDOSData, energies = [3], weights = [4],
               info = [''a'' \<mapsto> ''2'', ''b'' \<mapsto> ''1'']\<rparr>]
   \<and> (\<exists>t. total (DOSCollection
                      [\<lparr>kind = RawDOSData, energies = [1], weights = [2],
                          info = [''a'' \<mapsto> ''1'', ''b'' \<mapsto> ''1'']\<rparr>,
                       \<lparr>kind = RawDOSData, energies = [3], weights = [4],
                          info = [''a'' \<mapsto> ''2'', ''b'' \<mapsto> ''1'']\<rparr>]) = Inr t
          \<and> kind t = RawDOSData \<and> energies t = [1, 3] \<and> weights t = [2, 4]
          \<and> info t ''label'' = Some ''Total'' \<and> info t ''b'' = Some ''1''
          \<and> info t ''a'' \<noteq> Some ''1'' \<and> info t ''a'' \<noteq> Some ''2'')"
proof -
  let ?a = "\<lparr>kind = RawDOSData, energies = [1::real], weights = [2::real],
              info = [''a'' \<mapsto> ''1'', ''b'' \<mapsto> ''1'']\<rparr>"
  let ?b = "\<lparr>kind = RawDOSData, energies = [3::real], weights = [4::real],
              info = [''a'' \<mapsto> ''2'', ''b'' \<mapsto> ''1'']\<rparr>"
  let ?c = "DOSCollection [?a, ?b]"
  have it: "iter ?c = Inr [?a, ?b]" by simp
  have ne: "[?a, ?b] \<noteq> []" by simp
  obtain s where s: "sum_all ?c = Inr s" "kind s = RawDOSData" "energies s = [1, 3]"
      "weights s = [2, 4]"
    by (simp add: sum_all_def reduce_add_def dos_add_def RawDOSData_add_def
          GeneralDOSData_init_def)
  from total_is_labelled_sum [OF it ne] s(1)
  obtain t where t: "total ?c = Inr t" "kind t = kind s" "energies t = energies s"
      "weights t = weights s" "info t ''label'' = Some ''Total''"
      "\<forall>k v. k \<noteq> ''label'' \<longrightarrow>
         (info t k = Some v \<longleftrightarrow> (\<forall>d\<in>set [?a, ?b]. info d k = Some v))"
    by blast
  from t(6) have "info t ''b'' = Some ''1''" "info t ''a'' \<noteq> Some ''1''"
      "info t ''a'' \<noteq> Some ''2''"
    by simp_all
  with t s it show ?thesis by simp
qed

subsection \<open>Sampling a collection\<close>

lemma entity_sample_AttributeError:
  "entity_sample data es width smearing = ([], Inl AttributeError)"
  by (simp add: entity_sample_def sampling_methods_def)

lemma sample_nonempty_AttributeError:
  assumes "iter c = Inr (data # rest)"
  shows "sample c es width smearing = ([], Inl AttributeError)"
  using assms by (simp add: sample_def entity_sample_AttributeError)


subsection \<open>Equality of collections\<close>

text \<open>On the three classes, \<open>==\<close> holds only between collections of the same class.\<close>

lemma collection_eq_same_class:
  assumes "collection_eq a items b others"
  shows "type_of a = type_of b"
  using assms
  by (cases "type_of a"; cases "type_of b")
     (auto simp: collection_eq_def DOSCollection_eq_def isinstance_def split: if_splits)


subsection \<open>Indexing a GridDOSCollection\<close>

lemma GridDOSCollection_init_loop_infos:
  "GridDOSCollection_init_loop es ds = Inr (rows, infos) \<Longrightarrow> infos = map info ds"
  by (induction ds arbitrary: rows infos) (auto split: if_splits sum.splits prod.splits)

text \<open>
  C2, as the spec states it: mutating the info of the entity returned by
  \<open>collection[i]\<close> leaves the stored metadata unchanged, and indexing again yields the
  original info. A GridDOSCollection built from one GridDOSData whose info is the object
  \<open>0\<close>, empty at first, refutes it: after \<open>collection[0].info['a'] = '1'\<close> the stored
  metadata of row 0 and the info of a newly indexed entity both hold \<open>'a': '1'\<close>.
\<close>

theorem getitem_info_mutation_visible:
  "GridDOSCollection_init [\<lparr>kind = GridDOSData, energies = [0, 1, 2], weights = [5, 6, 7], info = 0\<rparr>]
     = Inr (GridDOSCollection [0, 1, 2] [[5, 6, 7]] [0::ref])
   \<and> (\<exists>e. getitem (GridDOSCollection [0, 1, 2] [[5, 6, 7]] [0::ref]) 0 = Inr e
        \<and> info_in (\<lambda>r. Map.empty) e ''a'' = None
        \<and> stored_info (\<lambda>r. Map.empty) [0] ! 0 = info_in (\<lambda>r. Map.empty) e
        \<and> (stored_info (info_update (\<lambda>r. Map.empty) (info e) (\<lambda>m. m(''a'' \<mapsto> ''1''))) [0] ! 0) ''a'' = Some ''1''
        \<and> (\<exists>e2. getitem (GridDOSCollection [0, 1, 2] [[5, 6, 7]] [0::ref]) 0 = Inr e2
              \<and> info_in (info_update (\<lambda>r. Map.empty) (info e) (\<lambda>m. m(''a'' \<mapsto> ''1''))) e2 ''a''
                   = Some ''1''))"
  by (simp add: GridDOSCollection_init_def get_energies_def get_weights_def allclose_def
        isclose_def np_assign_row_def py_index_def GridDOSData_init_0_1_2 info_in_def
        info_update_def stored_info_def)

text \<open>
  C2, amended. Indexing a GridDOSCollection with a valid integer constructs a new
  GridDOSData on the common axis with the weights of the row, and its info is the very
  mapping object that the collection stores for the row (the object taken from the
  entity the collection was built from). A mutation of that info is therefore a mutation
  of the stored metadata: an entity indexed afterwards at the same position has the
  mutated info, with the same energies and weights.
\<close>

theorem getitem_shares_info:
  assumes "getitem (GridDOSCollection es rows infos) item = Inr e"
  shows "py_index infos item = Inr (info e)
     \<and> kind e = GridDOSData \<and> energies e = es \<and> py_index rows item = Inr (weights e)
     \<and> (\<forall>h f e2. getitem (GridDOSCollection es rows infos) item = Inr e2 \<longrightarrow>
            info_in (info_update h (info e) f) e2 = f (info_in h e)
            \<and> energies e2 = energies e \<and> weights e2 = weights e)
     \<and> (\<forall>ds. GridDOSCollection_init ds = Inr (GridDOSCollection es rows infos) \<longrightarrow>
            infos = map info ds)"
proof -
  from assms obtain row i where ri: "py_index rows item = Inr row" "py_index infos item = Inr i"
      "GridDOSData_init es row i = Inr e"
    by (auto split: sum.splits)
  from GridDOSData_init_fields [OF ri(3)]
  have e: "e = \<lparr>kind = GridDOSData, energies = es, weights = row, info = i\<rparr>" .
  have "infos = map info ds"
    if init: "GridDOSCollection_init ds = Inr (GridDOSCollection es rows infos)" for ds
  proof (cases ds)
    case Nil
    with init show ?thesis by (simp add: GridDOSCollection_init_def)
  next
    case (Cons first rest)
    with init have "GridDOSCollection_init_loop (get_energies first) ds = Inr (rows, infos)"
      by (simp add: GridDOSCollection_init_def del: GridDOSCollection_init_loop.simps
            split: sum.splits prod.splits)
    then show ?thesis by (rule GridDOSCollection_init_loop_infos)
  qed
  with ri e assms show ?thesis
    by (simp add: info_in_def info_update_def)
qed

theorem getitem_shares_info_witness:
  "\<exists>e. getitem (GridDOSCollection [0, 1, 2] [[5, 6, 7], [1, 1, 1]] [3, 4 :: ref]) (- 1) = Inr e
       \<and> info e = 4 \<and> weights e = [1, 1, 1] \<and> energies e = [0, 1, 2]
       \<and> info_in (\<lambda>r. Map.empty) e ''a'' = None
       \<and> info_in (info_update (\<lambda>r. Map.empty) (info e) (\<lambda>m. m(''a'' \<mapsto> ''1''))) e ''a''
            = Some ''1''"
proof -
  let ?c = "GridDOSCollection [0, 1, 2] [[5, 6, 7], [1, 1, 1]] [3, 4 :: ref]"
  obtain e where e: "getitem ?c (- 1) = Inr e"
    by (simp add: py_index_def GridDOSData_init_0_1_2)
  from getitem_shares_info [OF e]
  have "py_index [3, 4 :: ref] (- 1) = Inr (info e)" "energies e = [0, 1, 2]"
      "py_index [[5, 6, 7], [1, 1, 1]] (- 1) = Inr (weights e)"
      "info_in (info_update (\<lambda>r. Map.empty) (info e) (\<lambda>m. m(''a'' \<mapsto> ''1''))) e
         = (\<lambda>m. m(''a'' \<mapsto> ''1'')) (info_in (\<lambda>r. Map.empty) e)"
    using e by blast+
  then have "info e = 4" "weights e = [1, 1, 1]" "energies e = [0, 1, 2]"
      "info_in (info_update (\<lambda>r. Map.empty) (info e) (\<lambda>m. m(''a'' \<mapsto> ''1''))) e ''a''
         = Some ''1''"
    by (simp_all add: py_index_def)
  moreover have "info_in (\<lambda>r. Map.empty) e ''a'' = None"
    by (simp add: info_in_def)
  ultimately show ?thesis using e by blast
qed

end
